theory Spec2Isabelle
  imports Complex_Main
begin

section \<open>Numbers\<close>

text \<open>
  The program computes with Python numbers: \<open>age\<close> is an integer, every other measurement
  a float, and each arithmetic expression mixes them with float literals. The embedding
  reads all of them as exact reals, so a literal such as \<open>0.02\<close> is the rational
  \<open>2 / 100\<close> and no rounding happens between operations. There is no NaN and no infinity
  in this reading; every comparison of the source is the order of the reals.
\<close>

text \<open>
  Python's \<open>max(a, b)\<close> keeps its first argument unless a later one is strictly greater.
\<close>

definition py_max :: "real \<Rightarrow> real \<Rightarrow> real" where
  "py_max a b = (if b > a then b else a)"

section \<open>Lower limit of normal\<close>

text \<open>
  The \<open>if\<close>/\<open>elif\<close> chain of \<open>calculate_lln\<close> that binds the local
  \<open>adjustment_factor\<close>, in the order of the source.
\<close>

definition adjustment_factor :: "string \<Rightarrow> real" where
  "adjustment_factor ethnicity =
     (if ethnicity = ''Caucasian'' then 1.0
      else if ethnicity = ''African American'' then 0.88
      else if ethnicity = ''Asian'' then 0.94
      else 1.0)"

definition calculate_lln :: "real \<Rightarrow> real \<Rightarrow> string \<Rightarrow> real \<Rightarrow> string \<Rightarrow> real" where
  "calculate_lln parameter age gender height ethnicity =
     (let lln_value = adjustment_factor ethnicity * (parameter - (age * 0.02) + (height * 0.05))
      in py_max 0 lln_value)"

section \<open>Peak expiratory flow\<close>

text \<open>\<open>None\<close> is the Python \<open>None\<close> returned for a gender the equation does not cover.\<close>

definition calculate_pef :: "real \<Rightarrow> string \<Rightarrow> real \<Rightarrow> real option" where
  "calculate_pef age gender height =
     (if gender = ''Male'' then Some (187 + (5.48 * height) - (0.034 * age))
      else if gender = ''Female'' then Some (153 + (4.50 * height) - (0.026 * age))
      else None)"

section \<open>Fixed-point formatting\<close>

text \<open>
  The format specification \<open>.2f\<close> prints a number with two digits after the point,
  rounding the exact value to the nearest hundredth and a tie to the even neighbour, and
  keeps the minus sign of a negative number even when all printed digits are zero.
\<close>

definition digit_char :: "nat \<Rightarrow> char" where
  "digit_char d = ''0123456789'' ! (d mod 10)"

fun dec_digits :: "nat \<Rightarrow> string" where
  "dec_digits n =
     (if n < 10 then [digit_char n] else dec_digits (n div 10) @ [digit_char (n mod 10)])"

declare dec_digits.simps [simp del]

definition round_half_even :: "real \<Rightarrow> int" where
  "round_half_even x =
     (let f = \<lfloor>x\<rfloor>; d = x - of_int f
      in if d < 1 / 2 then f
         else if d > 1 / 2 then f + 1
         else if even f then f else f + 1)"

definition format_2f :: "real \<Rightarrow> string" where
  "format_2f x =
     (let n = nat (round_half_even (\<bar>x\<bar> * 100))
      in (if x < 0 then ''-'' else '''')
         @ dec_digits (n div 100) @ ''.''
         @ [digit_char (n mod 100 div 10), digit_char (n mod 10)])"

section \<open>Interpretation of a pulmonary function test\<close>

text \<open>
  \<open>interpret_pft\<close> starts from the empty list \<open>interpretation\<close> and runs a fixed
  sequence of independent checks, each of which appends its lines or leaves the list as
  it is. Every check is a function from the list so far to the list after it, named after
  the comment that heads it in the source; \<open>interpret_pft\<close> threads the list through them
  in the order of the source. An optional measurement is \<open>None\<close> when the caller left
  it out.
\<close>

definition obstructive_pattern :: "real \<Rightarrow> real \<Rightarrow> real \<Rightarrow> string list \<Rightarrow> string list" where
  "obstructive_pattern fev1 fev1_fvc fev1_fvc_lln interpretation =
     (if fev1_fvc < fev1_fvc_lln then
        (let interpretation = interpretation @
               [''Obstructive pattern detected (LLN-adjusted cutoff: ''
                  @ format_2f fev1_fvc_lln @ '').'']
         in if fev1 \<ge> 70 then
              interpretation @
                [''Severity: Mild obstruction.'',
                 ''Next steps: Consider a short-acting beta-agonist (e.g., albuterol). Reassess if symptoms persist.'']
            else if 50 \<le> fev1 \<and> fev1 < 70 then
              interpretation @
                [''Severity: Moderate obstruction.'',
                 ''Next steps: Consider adding long-acting bronchodilators (e.g., LABA or LAMA). Evaluate for inhaled corticosteroids if needed.'']
            else if fev1 < 50 then
              interpretation @
                [''Severity: Severe obstruction.'',
                 ''Next steps: Refer to a pulmonologist. Consider advanced therapies like combination inhalers or oxygen therapy if indicated.'']
            else interpretation)
      else interpretation)"

definition restrictive_pattern :: "real \<Rightarrow> real \<Rightarrow> real \<Rightarrow> string list \<Rightarrow> string list" where
  "restrictive_pattern fvc fev1_fvc fev1_fvc_lln interpretation =
     (if fvc < 80 \<and> fev1_fvc \<ge> fev1_fvc_lln then
        interpretation @
          [''Restrictive pattern detected.'',
           ''Next steps: Evaluate for interstitial lung disease, obesity, or neuromuscular disorders. Consider high-resolution CT or referral to a specialist.'']
      else interpretation)"

definition mixed_pattern :: "real \<Rightarrow> real \<Rightarrow> real \<Rightarrow> string list \<Rightarrow> string list" where
  "mixed_pattern fvc fev1_fvc fev1_fvc_lln interpretation =
     (if fev1_fvc < fev1_fvc_lln \<and> fvc < 80 then
        interpretation @
          [''Mixed obstructive and restrictive pattern detected.'',
           ''Next steps: Comprehensive workup needed. Evaluate for concurrent obstructive and restrictive conditions. Referral to pulmonology recommended.'']
      else interpretation)"

definition dlco_evaluation :: "real option \<Rightarrow> string list \<Rightarrow> string list" where
  "dlco_evaluation dlco_sb interpretation =
     (case dlco_sb of
        None \<Rightarrow> interpretation
      | Some d \<Rightarrow>
          if d < 80 then
            interpretation @
              [''Reduced DLCO_SB: Suggests impaired gas exchange.'',
               ''Next steps: Investigate causes such as interstitial lung disease, pulmonary hypertension, or emphysema. Consider echocardiography or CT imaging.'']
          else interpretation @ [''DLCO_SB is within normal limits.''])"

definition dl_va_note :: "real option \<Rightarrow> string list \<Rightarrow> string list" where
  "dl_va_note dl_va interpretation =
     (case dl_va of
        None \<Rightarrow> interpretation
      | Some v \<Rightarrow>
          interpretation @
            [''DL/VA ratio: '' @ format_2f v
               @ ''. Interpretation depends on clinical context (e.g., lung volume and gas exchange).''])"

definition va_sb_note :: "real option \<Rightarrow> string list \<Rightarrow> string list" where
  "va_sb_note va_sb interpretation =
     (case va_sb of
        None \<Rightarrow> interpretation
      | Some v \<Rightarrow>
          interpretation @
            [''VA_SB: '' @ format_2f v @ '' L. This represents the alveolar volume.''])"

definition ivc_sb_note :: "real option \<Rightarrow> string list \<Rightarrow> string list" where
  "ivc_sb_note ivc_sb interpretation =
     (case ivc_sb of
        None \<Rightarrow> interpretation
      | Some v \<Rightarrow>
          interpretation @
            [''IVC_SB: '' @ format_2f v
               @ '' L. Represents inspiratory capacity during single breath testing.''])"

definition bht_note :: "real option \<Rightarrow> string list \<Rightarrow> string list" where
  "bht_note bht interpretation =
     (case bht of
        None \<Rightarrow> interpretation
      | Some v \<Rightarrow>
          interpretation @
            [''Breath-holding time (BHT): '' @ format_2f v
               @ '' seconds. Ensure proper technique during test.''])"

definition normal_fallback :: "string list \<Rightarrow> string list" where
  "normal_fallback interpretation =
     (if interpretation = [] then
        interpretation @
          [''Normal PFT values.'',
           ''Next steps: No action needed. Encourage routine follow-up if indicated.'']
      else interpretation)"

definition interpret_pft ::
  "real \<Rightarrow> real \<Rightarrow> real \<Rightarrow> real \<Rightarrow> string \<Rightarrow> real \<Rightarrow> string
     \<Rightarrow> real option \<Rightarrow> real option \<Rightarrow> real option \<Rightarrow> real option \<Rightarrow> real option
     \<Rightarrow> string list" where
  "interpret_pft fev1 fvc fev1_fvc age gender height ethnicity dlco_sb dl_va va_sb ivc_sb bht =
     (let interpretation = [];
          fev1_fvc_lln = calculate_lln 1.0 age gender height ethnicity;
          interpretation = obstructive_pattern fev1 fev1_fvc fev1_fvc_lln interpretation;
          interpretation = restrictive_pattern fvc fev1_fvc fev1_fvc_lln interpretation;
          interpretation = mixed_pattern fvc fev1_fvc fev1_fvc_lln interpretation;
          interpretation = dlco_evaluation dlco_sb interpretation;
          interpretation = dl_va_note dl_va interpretation;
          interpretation = va_sb_note va_sb interpretation;
          interpretation = ivc_sb_note ivc_sb interpretation;
          interpretation = bht_note bht interpretation
      in normal_fallback interpretation)"

section \<open>The call in the state of the module\<close>

text \<open>
  \<open>interpret_pft\<close> is called from the module's top level, after the module has bound the
  values of the input form to global names. Several of these names (\<open>age\<close>, \<open>gender\<close>,
  \<open>ethnicity\<close>, \<open>fev1\<close>, \<open>fvc\<close>, \<open>fev1_fvc\<close> and the five optional measurements) are also
  parameters of \<open>interpret_pft\<close>; the global \<open>fev1_fvc\<close> is a percentage while the argument
  passed for the parameter of that name is a fraction. The fields of \<open>module_state\<close> are
  the global names, prefixed with \<open>g_\<close>.
\<close>

record module_state =
  g_age :: real
  g_weight_lbs :: real
  g_weight_kg :: real
  g_height_inches :: real
  g_height_cm :: real
  g_gender :: string
  g_ethnicity :: string
  g_fev1 :: real
  g_fvc :: real
  g_fev1_fvc :: real
  g_dlco_sb :: "real option"
  g_dl_va :: "real option"
  g_va_sb :: "real option"
  g_ivc_sb :: "real option"
  g_bht :: "real option"

text \<open>
  The local names of one call: the twelve parameters and the two names the body assigns,
  prefixed with \<open>l_\<close>. The body has no \<open>global\<close> declaration, so a name that is a
  parameter or is assigned in the body denotes the local.
\<close>

record frame =
  l_fev1 :: real
  l_fvc :: real
  l_fev1_fvc :: real
  l_age :: real
  l_gender :: string
  l_height :: real
  l_ethnicity :: string
  l_dlco_sb :: "real option"
  l_dl_va :: "real option"
  l_va_sb :: "real option"
  l_ivc_sb :: "real option"
  l_bht :: "real option"
  l_interpretation :: "string list"
  l_fev1_fvc_lln :: real

type_synonym py_state = "module_state \<times> frame"

text \<open>
  Entering the function binds the parameters to the arguments; the first two statements
  of the body then bind \<open>interpretation\<close> and \<open>fev1_fvc_lln\<close>.
\<close>

definition bind_arguments ::
  "real \<Rightarrow> real \<Rightarrow> real \<Rightarrow> real \<Rightarrow> string \<Rightarrow> real \<Rightarrow> string
     \<Rightarrow> real option \<Rightarrow> real option \<Rightarrow> real option \<Rightarrow> real option \<Rightarrow> real option
     \<Rightarrow> frame" where
  "bind_arguments fev1 fvc fev1_fvc age gender height ethnicity dlco_sb dl_va va_sb ivc_sb bht =
     (let interpretation = [];
          fev1_fvc_lln = calculate_lln 1.0 age gender height ethnicity
      in \<lparr>l_fev1 = fev1, l_fvc = fvc, l_fev1_fvc = fev1_fvc, l_age = age, l_gender = gender,
          l_height = height, l_ethnicity = ethnicity, l_dlco_sb = dlco_sb, l_dl_va = dl_va,
          l_va_sb = va_sb, l_ivc_sb = ivc_sb, l_bht = bht,
          l_interpretation = interpretation, l_fev1_fvc_lln = fev1_fvc_lln\<rparr>)"

text \<open>
  Each further statement of the body maps the state before it to the state after it. It
  may read and write any name of the module and of the frame; what it does read and
  write is what the source names.
\<close>

fun obstructive_stmt :: "py_state \<Rightarrow> py_state" where
  "obstructive_stmt (m, l) =
     (m, l\<lparr>l_interpretation :=
              obstructive_pattern (l_fev1 l) (l_fev1_fvc l) (l_fev1_fvc_lln l)
                (l_interpretation l)\<rparr>)"

fun restrictive_stmt :: "py_state \<Rightarrow> py_state" where
  "restrictive_stmt (m, l) =
     (m, l\<lparr>l_interpretation :=
              restrictive_pattern (l_fvc l) (l_fev1_fvc l) (l_fev1_fvc_lln l)
                (l_interpretation l)\<rparr>)"

fun mixed_stmt :: "py_state \<Rightarrow> py_state" where
  "mixed_stmt (m, l) =
     (m, l\<lparr>l_interpretation :=
              mixed_pattern (l_fvc l) (l_fev1_fvc l) (l_fev1_fvc_lln l)
                (l_interpretation l)\<rparr>)"

fun dlco_stmt :: "py_state \<Rightarrow> py_state" where
  "dlco_stmt (m, l) =
     (m, l\<lparr>l_interpretation := dlco_evaluation (l_dlco_sb l) (l_interpretation l)\<rparr>)"

fun dl_va_stmt :: "py_state \<Rightarrow> py_state" where
  "dl_va_stmt (m, l) =
     (m, l\<lparr>l_interpretation := dl_va_note (l_dl_va l) (l_interpretation l)\<rparr>)"

fun va_sb_stmt :: "py_state \<Rightarrow> py_state" where
  "va_sb_stmt (m, l) =
     (m, l\<lparr>l_interpretation := va_sb_note (l_va_sb l) (l_interpretation l)\<rparr>)"

fun ivc_sb_stmt :: "py_state \<Rightarrow> py_state" where
  "ivc_sb_stmt (m, l) =
     (m, l\<lparr>l_interpretation := ivc_sb_note (l_ivc_sb l) (l_interpretation l)\<rparr>)"

fun bht_stmt :: "py_state \<Rightarrow> py_state" where
  "bht_stmt (m, l) =
     (m, l\<lparr>l_interpretation := bht_note (l_bht l) (l_interpretation l)\<rparr>)"

fun fallback_stmt :: "py_state \<Rightarrow> py_state" where
  "fallback_stmt (m, l) =
     (m, l\<lparr>l_interpretation := normal_fallback (l_interpretation l)\<rparr>)"

text \<open>
  A call in module state \<open>m\<close>: the returned list together with the module state the call
  leaves behind.
\<close>

definition interpret_pft_call ::
  "module_state \<Rightarrow> real \<Rightarrow> real \<Rightarrow> real \<Rightarrow> real \<Rightarrow> string \<Rightarrow> real \<Rightarrow> string
     \<Rightarrow> real option \<Rightarrow> real option \<Rightarrow> real option \<Rightarrow> real option \<Rightarrow> real option
     \<Rightarrow> string list \<times> module_state" where
  "interpret_pft_call m fev1 fvc fev1_fvc age gender height ethnicity dlco_sb dl_va va_sb ivc_sb bht =
     (let s = (m, bind_arguments fev1 fvc fev1_fvc age gender height ethnicity dlco_sb dl_va va_sb ivc_sb bht);
          s = obstructive_stmt s;
          s = restrictive_stmt s;
          s = mixed_stmt s;
          s = dlco_stmt s;
          s = dl_va_stmt s;
          s = va_sb_stmt s;
          s = ivc_sb_stmt s;
          s = bht_stmt s;
          s = fallback_stmt s
      in (l_interpretation (snd s), fst s))"

section \<open>Vocabulary of the statements\<close>

text \<open>
  The lines that the five checks on optional measurements contribute, starting from an
  empty list: what \<open>interpret_pft\<close> appends after the three pattern checks.
\<close>

definition optional_notes ::
  "real option \<Rightarrow> real option \<Rightarrow> real option \<Rightarrow> real option \<Rightarrow> real option \<Rightarrow> string list" where
  "optional_notes dlco_sb dl_va va_sb ivc_sb bht =
     dlco_evaluation dlco_sb [] @ dl_va_note dl_va [] @ va_sb_note va_sb []
       @ ivc_sb_note ivc_sb [] @ bht_note bht []"

text \<open>
  The three severity lines of the obstructive check, and the severity lines found in an
  output, in the order in which they occur.
\<close>

definition severity_lines :: "string list" where
  "severity_lines =
     [''Severity: Mild obstruction.'', ''Severity: Moderate obstruction.'',
      ''Severity: Severe obstruction.'']"

definition severity_bands :: "string list \<Rightarrow> string list" where
  "severity_bands out = filter (\<lambda>l. l \<in> set severity_lines) out"

section \<open>Each check appends to the list it is given\<close>

lemma obstructive_pattern_append:
  "obstructive_pattern fev1 r lln xs = xs @ obstructive_pattern fev1 r lln []"
  by (simp add: obstructive_pattern_def Let_def)

lemma restrictive_pattern_append:
  "restrictive_pattern fvc r lln xs = xs @ restrictive_pattern fvc r lln []"
  by (simp add: restrictive_pattern_def)

lemma mixed_pattern_append:
  "mixed_pattern fvc r lln xs = xs @ mixed_pattern fvc r lln []"
  by (simp add: mixed_pattern_def)

lemma dlco_evaluation_append: "dlco_evaluation d xs = xs @ dlco_evaluation d []"
  by (simp add: dlco_evaluation_def split: option.split)

lemma dl_va_note_append: "dl_va_note d xs = xs @ dl_va_note d []"
  by (simp add: dl_va_note_def split: option.split)

lemma va_sb_note_append: "va_sb_note d xs = xs @ va_sb_note d []"
  by (simp add: va_sb_note_def split: option.split)

lemma ivc_sb_note_append: "ivc_sb_note d xs = xs @ ivc_sb_note d []"
  by (simp add: ivc_sb_note_def split: option.split)

lemma bht_note_append: "bht_note d xs = xs @ bht_note d []"
  by (simp add: bht_note_def split: option.split)

lemma interpret_pft_append:
  "interpret_pft fev1 fvc r age gender height ethnicity dlco_sb dl_va va_sb ivc_sb bht =
     normal_fallback
       (obstructive_pattern fev1 r (calculate_lln 1 age gender height ethnicity) []
          @ restrictive_pattern fvc r (calculate_lln 1 age gender height ethnicity) []
          @ mixed_pattern fvc r (calculate_lln 1 age gender height ethnicity) []
          @ optional_notes dlco_sb dl_va va_sb ivc_sb bht)"
  unfolding interpret_pft_def Let_def optional_notes_def
  apply (subst bht_note_append)
  apply (subst ivc_sb_note_append)
  apply (subst va_sb_note_append)
  apply (subst dl_va_note_append)
  apply (subst dlco_evaluation_append)
  apply (subst mixed_pattern_append)
  apply (subst restrictive_pattern_append)
  apply simp
  done


lemmas step_defs = obstructive_pattern_def restrictive_pattern_def mixed_pattern_def
  dlco_evaluation_def dl_va_note_def va_sb_note_def ivc_sb_note_def bht_note_def

lemma optional_notes_heads:
  "l \<in> set (optional_notes dlco_sb dl_va va_sb ivc_sb bht) \<Longrightarrow>
     take 3 l \<in> {''Red'', ''Nex'', ''DLC'', ''DL/'', ''VA_'', ''IVC'', ''Bre''}"
  unfolding optional_notes_def set_append Un_iff
  by (elim disjE) (auto simp: step_defs split: option.splits if_splits)

lemma obstructive_pattern_heads:
  "l \<in> set (obstructive_pattern fev1 r lln []) \<Longrightarrow> take 3 l \<in> {''Obs'', ''Sev'', ''Nex''}"
  by (auto simp: obstructive_pattern_def Let_def split: if_splits)

lemma restrictive_pattern_heads:
  "l \<in> set (restrictive_pattern fvc r lln []) \<Longrightarrow> take 3 l \<in> {''Res'', ''Nex''}"
  by (auto simp: restrictive_pattern_def split: if_splits)

lemma mixed_pattern_heads:
  "l \<in> set (mixed_pattern fvc r lln []) \<Longrightarrow> take 3 l \<in> {''Mix'', ''Nex''}"
  by (auto simp: mixed_pattern_def split: if_splits)

lemma set_normal_fallback:
  "set (normal_fallback xs) =
     (if xs = [] then {''Normal PFT values.'',
        ''Next steps: No action needed. Encourage routine follow-up if indicated.''} else set xs)"
  by (auto simp: normal_fallback_def)

lemma restrictive_line_iff:
  "''Restrictive pattern detected.''
     \<in> set (interpret_pft fev1 fvc r age gender height ethnicity dlco_sb dl_va va_sb ivc_sb bht)
   \<longleftrightarrow> fvc < 80 \<and> calculate_lln 1 age gender height ethnicity \<le> r"
  (is "?s \<in> set ?out \<longleftrightarrow> ?c")
proof
  assume c: ?c
  then have "restrictive_pattern fvc r (calculate_lln 1 age gender height ethnicity) [] \<noteq> []"
    and "?s \<in> set (restrictive_pattern fvc r (calculate_lln 1 age gender height ethnicity) [])"
    by (simp_all add: restrictive_pattern_def)
  then show "?s \<in> set ?out"
    by (simp add: interpret_pft_append set_normal_fallback)
next
  assume m: "?s \<in> set ?out"
  show ?c
  proof (rule ccontr)
    assume n: "\<not> ?c"
    then have e: "restrictive_pattern fvc r (calculate_lln 1 age gender height ethnicity) [] = []"
      by (auto simp: restrictive_pattern_def)
    from m have "?s \<in> set (obstructive_pattern fev1 r (calculate_lln 1 age gender height ethnicity) [])
        \<or> ?s \<in> set (mixed_pattern fvc r (calculate_lln 1 age gender height ethnicity) [])
        \<or> ?s \<in> set (optional_notes dlco_sb dl_va va_sb ivc_sb bht)"
      by (simp add: interpret_pft_append set_normal_fallback e split: if_splits)
    then show False
      using obstructive_pattern_heads [of ?s] mixed_pattern_heads [of ?s] optional_notes_heads [of ?s]
      by auto
  qed
qed


section \<open>Evaluation and membership lemmas\<close>

lemma dec_digits_small: "n < 10 \<Longrightarrow> dec_digits n = [digit_char n]"
  by (simp add: dec_digits.simps)

lemma dec_digits_large:
  "10 \<le> n \<Longrightarrow> dec_digits n = dec_digits (n div 10) @ [digit_char (n mod 10)]"
  by (subst dec_digits.simps) simp

lemmas format_eval = format_2f_def round_half_even_def dec_digits_small dec_digits_large
  digit_char_def Let_def

lemmas lln_eval = calculate_lln_def adjustment_factor_def py_max_def

lemmas interpret_eval = interpret_pft_def step_defs normal_fallback_def lln_eval format_eval

lemma mixed_line_iff:
  "''Mixed obstructive and restrictive pattern detected.''
     \<in> set (interpret_pft fev1 fvc r age gender height ethnicity dlco_sb dl_va va_sb ivc_sb bht)
   \<longleftrightarrow> r < calculate_lln 1 age gender height ethnicity \<and> fvc < 80"
  (is "?s \<in> set ?out \<longleftrightarrow> ?c")
proof
  assume c: ?c
  then have "mixed_pattern fvc r (calculate_lln 1 age gender height ethnicity) [] \<noteq> []"
    and "?s \<in> set (mixed_pattern fvc r (calculate_lln 1 age gender height ethnicity) [])"
    by (simp_all add: mixed_pattern_def)
  then show "?s \<in> set ?out"
    by (simp add: interpret_pft_append set_normal_fallback)
next
  assume m: "?s \<in> set ?out"
  show ?c
  proof (rule ccontr)
    assume n: "\<not> ?c"
    then have e: "mixed_pattern fvc r (calculate_lln 1 age gender height ethnicity) [] = []"
      by (auto simp: mixed_pattern_def)
    from m have "?s \<in> set (obstructive_pattern fev1 r (calculate_lln 1 age gender height ethnicity) [])
        \<or> ?s \<in> set (restrictive_pattern fvc r (calculate_lln 1 age gender height ethnicity) [])
        \<or> ?s \<in> set (optional_notes dlco_sb dl_va va_sb ivc_sb bht)"
      by (simp add: interpret_pft_append set_normal_fallback e split: if_splits)
    then show False
      using obstructive_pattern_heads [of ?s] restrictive_pattern_heads [of ?s]
        optional_notes_heads [of ?s]
      by auto
  qed
qed

lemma obstructive_first:
  assumes "r < calculate_lln 1 age gender height ethnicity"
  shows "\<exists>rest. interpret_pft fev1 fvc r age gender height ethnicity dlco_sb dl_va va_sb ivc_sb bht =
      (''Obstructive pattern detected (LLN-adjusted cutoff: ''
         @ format_2f (calculate_lln 1 age gender height ethnicity) @ '').'') # rest"
  using assms
  by (simp add: interpret_pft_append normal_fallback_def obstructive_pattern_def Let_def)

lemma normal_line_iff:
  "''Normal PFT values.''
     \<in> set (interpret_pft fev1 fvc r age gender height ethnicity dlco_sb dl_va va_sb ivc_sb bht)
   \<longleftrightarrow> interpret_pft fev1 fvc r age gender height ethnicity dlco_sb dl_va va_sb ivc_sb bht =
     [''Normal PFT values.'',
      ''Next steps: No action needed. Encourage routine follow-up if indicated.'']"
  (is "?s \<in> set ?out \<longleftrightarrow> ?out = ?n")
proof
  assume "?out = ?n" then show "?s \<in> set ?out" by simp
next
  let ?body = "obstructive_pattern fev1 r (calculate_lln 1 age gender height ethnicity) []
          @ restrictive_pattern fvc r (calculate_lln 1 age gender height ethnicity) []
          @ mixed_pattern fvc r (calculate_lln 1 age gender height ethnicity) []
          @ optional_notes dlco_sb dl_va va_sb ivc_sb bht"
  assume m: "?s \<in> set ?out"
  have "?body = []"
  proof (rule ccontr)
    assume ne: "?body \<noteq> []"
    then have "?out = ?body"
      unfolding interpret_pft_append normal_fallback_def by (simp only: if_False)
    with m have "?s \<in> set ?body" by simp
    then show False
      using obstructive_pattern_heads [of ?s] restrictive_pattern_heads [of ?s]
        mixed_pattern_heads [of ?s] optional_notes_heads [of ?s]
      by auto
  qed
  then show "?out = ?n"
    unfolding interpret_pft_append normal_fallback_def by simp
qed

lemma severity_bands_append: "severity_bands (xs @ ys) = severity_bands xs @ severity_bands ys"
  by (simp add: severity_bands_def)

lemma severity_bands_restrictive: "severity_bands (restrictive_pattern fvc r lln []) = []"
  by (simp add: severity_bands_def severity_lines_def restrictive_pattern_def)

lemma severity_bands_mixed: "severity_bands (mixed_pattern fvc r lln []) = []"
  by (simp add: severity_bands_def severity_lines_def mixed_pattern_def)

lemma severity_bands_optional_notes:
  "severity_bands (optional_notes dlco_sb dl_va va_sb ivc_sb bht) = []"
proof -
  have "l \<notin> set severity_lines" if "l \<in> set (optional_notes dlco_sb dl_va va_sb ivc_sb bht)" for l
    using optional_notes_heads [OF that] by (auto simp: severity_lines_def)
  then show ?thesis
    by (simp add: severity_bands_def filter_empty_conv)
qed

lemma severity_bands_obstructive:
  "r < lln \<Longrightarrow> severity_bands (obstructive_pattern fev1 r lln []) =
     [if fev1 \<ge> 70 then ''Severity: Mild obstruction.''
      else if 50 \<le> fev1 then ''Severity: Moderate obstruction.''
      else ''Severity: Severe obstruction.'']"
  by (simp add: severity_bands_def severity_lines_def obstructive_pattern_def Let_def)

lemma obstructive_pattern_nonempty: "r < lln \<Longrightarrow> obstructive_pattern fev1 r lln [] \<noteq> []"
  by (simp add: obstructive_pattern_def Let_def)

lemma optional_notes_absent: "optional_notes None None None None None = []"
  by (simp add: optional_notes_def step_defs)

lemma interpret_pft_call_eq:
  "interpret_pft_call m fev1 fvc fev1_fvc age gender height ethnicity dlco_sb dl_va va_sb ivc_sb bht = (interpret_pft fev1 fvc fev1_fvc age gender height ethnicity dlco_sb dl_va va_sb ivc_sb bht, m)"
  by (simp add: interpret_pft_call_def bind_arguments_def interpret_pft_def Let_def)

section \<open>Properties of the estimators\<close>

text \<open>
  C5. For every parameter, age, gender, height and ethnicity, \<open>calculate_lln\<close> returns a
  value greater than or equal to 0: the clamp holds also where the adjusted linear
  expression is negative.
\<close>

theorem calculate_lln_nonneg: "0 \<le> calculate_lln parameter age gender height ethnicity"
  by (simp add: calculate_lln_def py_max_def Let_def)

text \<open>
  C4. \<open>calculate_pef\<close> returns no value exactly when the gender is neither Male nor
  Female. For Male it returns \<open>187 + 5.48 * height - 0.034 * age\<close>, for Female
  \<open>153 + 4.50 * height - 0.026 * age\<close>, and neither value is clamped.
\<close>

theorem calculate_pef_cases:
  "(calculate_pef age gender height = None \<longleftrightarrow> gender \<noteq> ''Male'' \<and> gender \<noteq> ''Female'')
   \<and> calculate_pef age ''Male'' height = Some (187 + 5.48 * height - 0.034 * age)
   \<and> calculate_pef age ''Female'' height = Some (153 + 4.50 * height - 0.026 * age)"
  by (simp add: calculate_pef_def)

theorem calculate_pef_cases_witness:
  "calculate_pef 30 ''Other'' 170 = None
   \<and> calculate_pef 30 ''Male'' 170 = Some 1117.58
   \<and> calculate_pef 30 ''Female'' 170 = Some 917.22"
  using calculate_pef_cases [of 30 "''Other''" 170] by simp

text \<open>
  C6. \<open>calculate_lln\<close> multiplies \<open>parameter - age * 0.02 + height * 0.05\<close> by the
  adjustment factor 1.0 for Caucasian, 0.88 for African American, 0.94 for Asian and 1.0
  for every other ethnicity, and clamps the product at 0; so for an ethnicity outside these
  three it returns what it returns for Caucasian on the same other arguments.
\<close>

theorem adjustment_factor_table:
  "adjustment_factor ''Caucasian'' = 1.0
   \<and> adjustment_factor ''African American'' = 0.88
   \<and> adjustment_factor ''Asian'' = 0.94
   \<and> calculate_lln parameter age gender height ''Caucasian''
       = max 0 (1.0 * (parameter - age * 0.02 + height * 0.05))
   \<and> calculate_lln parameter age gender height ''African American''
       = max 0 (0.88 * (parameter - age * 0.02 + height * 0.05))
   \<and> calculate_lln parameter age gender height ''Asian''
       = max 0 (0.94 * (parameter - age * 0.02 + height * 0.05))
   \<and> (ethnicity \<notin> {''Caucasian'', ''African American'', ''Asian''} \<longrightarrow>
        adjustment_factor ethnicity = 1.0
        \<and> calculate_lln parameter age gender height ethnicity
            = max 0 (1.0 * (parameter - age * 0.02 + height * 0.05))
        \<and> calculate_lln parameter age gender height ethnicity
            = calculate_lln parameter age gender height ''Caucasian'')"
  by (simp add: adjustment_factor_def calculate_lln_def py_max_def max_def Let_def)

theorem adjustment_factor_table_witness:
  "''Other'' \<notin> {''Caucasian'', ''African American'', ''Asian''}
   \<and> adjustment_factor ''Other'' = 1.0
   \<and> calculate_lln 1 30 ''Male'' 170 ''Other'' = 8.9
   \<and> calculate_lln 1 30 ''Male'' 170 ''Other'' = calculate_lln 1 30 ''Male'' 170 ''Caucasian''
   \<and> calculate_lln 1 30 ''Male'' 170 ''African American'' = 7.832
   \<and> calculate_lln 1 30 ''Male'' 170 ''Asian'' = 8.366"
proof -
  have h: "''Other'' \<notin> {''Caucasian'', ''African American'', ''Asian''}"
    by simp
  from adjustment_factor_table [of 1 30 "''Male''" 170 "''Other''"] h show ?thesis
    by simp
qed

text \<open>
  C7. The result of \<open>calculate_lln\<close> does not depend on the gender: two calls that differ
  only in the gender return equal values.
\<close>

theorem calculate_lln_gender_independent:
  "calculate_lln parameter age gender height ethnicity
     = calculate_lln parameter age gender' height ethnicity"
  by (simp add: calculate_lln_def)

section \<open>Properties of the interpretation\<close>

text \<open>
  C1, as stated: with \<open>fev1 = 100\<close>, \<open>fvc = 100\<close>, ratio \<open>1.0\<close> and no optional
  measurement the output is the two normal lines for every age, gender, height and
  ethnicity. This fails for a Caucasian patient of 30 years and 170 cm: the cutoff is
  \<open>1 - 0.6 + 8.5 = 8.9\<close>, the ratio lies below it and the obstructive check fires.
\<close>

theorem normal_values_counterexample:
  "interpret_pft 100 100 1 30 ''Male'' 170 ''Caucasian'' None None None None None
     \<noteq> [''Normal PFT values.'', ''Next steps: No action needed. Encourage routine follow-up if indicated.'']
   \<and> interpret_pft 100 100 1 30 ''Male'' 170 ''Caucasian'' None None None None None
     = [''Obstructive pattern detected (LLN-adjusted cutoff: 8.90).'',
        ''Severity: Mild obstruction.'',
        ''Next steps: Consider a short-acting beta-agonist (e.g., albuterol). Reassess if symptoms persist.'']"
  by (simp add: interpret_eval)

text \<open>
  C1, amended: with \<open>fev1 = 100\<close>, \<open>fvc = 100\<close>, ratio \<open>1.0\<close> and no optional
  measurement the output is exactly the two normal lines if and only if the computed cutoff
  \<open>max 0 (adjustment_factor * (1.0 - age * 0.02 + height * 0.05))\<close> is at most 1, for every
  gender. When the cutoff exceeds 1 the obstructive check fires instead: the output is the
  obstructive line with that cutoff, the mild severity line and its recommendation.
\<close>

theorem normal_values_iff:
  "calculate_lln 1 age gender height ethnicity
     = max 0 (adjustment_factor ethnicity * (1.0 - age * 0.02 + height * 0.05))
   \<and> (interpret_pft 100 100 1 age gender height ethnicity None None None None None
       = [''Normal PFT values.'',
        ''Next steps: No action needed. Encourage routine follow-up if indicated.'']
      \<longleftrightarrow> calculate_lln 1 age gender height ethnicity \<le> 1)
   \<and> (1 < calculate_lln 1 age gender height ethnicity \<longrightarrow>
       interpret_pft 100 100 1 age gender height ethnicity None None None None None
       = [''Obstructive pattern detected (LLN-adjusted cutoff: ''
            @ format_2f (calculate_lln 1 age gender height ethnicity) @ '').'',
          ''Severity: Mild obstruction.'',
          ''Next steps: Consider a short-acting beta-agonist (e.g., albuterol). Reassess if symptoms persist.''])"
proof (intro conjI impI)
  show "calculate_lln 1 age gender height ethnicity
     = max 0 (adjustment_factor ethnicity * (1.0 - age * 0.02 + height * 0.05))"
    by (simp add: calculate_lln_def py_max_def max_def Let_def)
next
  show "interpret_pft 100 100 1 age gender height ethnicity None None None None None
       = [''Normal PFT values.'',
        ''Next steps: No action needed. Encourage routine follow-up if indicated.'']
      \<longleftrightarrow> calculate_lln 1 age gender height ethnicity \<le> 1"
  proof (cases "calculate_lln 1 age gender height ethnicity \<le> 1")
    case True
    then show ?thesis
      by (simp add: interpret_pft_append optional_notes_absent obstructive_pattern_def
          restrictive_pattern_def mixed_pattern_def normal_fallback_def)
  next
    case False
    then have "1 < calculate_lln 1 age gender height ethnicity" by simp
    from obstructive_first [OF this, of 100 100 None None None None None] False
    show ?thesis by auto
  qed
next
  assume "1 < calculate_lln 1 age gender height ethnicity"
  then show "interpret_pft 100 100 1 age gender height ethnicity None None None None None
       = [''Obstructive pattern detected (LLN-adjusted cutoff: ''
            @ format_2f (calculate_lln 1 age gender height ethnicity) @ '').'',
          ''Severity: Mild obstruction.'',
          ''Next steps: Consider a short-acting beta-agonist (e.g., albuterol). Reassess if symptoms persist.'']"
    by (simp add: interpret_pft_append optional_notes_absent obstructive_pattern_def
        restrictive_pattern_def mixed_pattern_def normal_fallback_def Let_def)
qed

theorem normal_values_iff_witness:
  "calculate_lln 1 40 ''Male'' 0 ''Caucasian'' \<le> 1
   \<and> interpret_pft 100 100 1 40 ''Male'' 0 ''Caucasian'' None None None None None
       = [''Normal PFT values.'',
        ''Next steps: No action needed. Encourage routine follow-up if indicated.'']
   \<and> 1 < calculate_lln 1 30 ''Female'' 170 ''Asian''
   \<and> interpret_pft 100 100 1 30 ''Female'' 170 ''Asian'' None None None None None
       = [''Obstructive pattern detected (LLN-adjusted cutoff: 8.37).'',
          ''Severity: Mild obstruction.'',
          ''Next steps: Consider a short-acting beta-agonist (e.g., albuterol). Reassess if symptoms persist.'']"
proof -
  have h: "calculate_lln 1 40 ''Male'' 0 ''Caucasian'' \<le> 1"
    and k: "1 < calculate_lln 1 30 ''Female'' 170 ''Asian''"
    by (simp_all add: lln_eval)
  have f: "format_2f (calculate_lln 1 30 ''Female'' 170 ''Asian'') = ''8.37''"
    by (simp add: lln_eval format_eval)
  from normal_values_iff [of 40 "''Male''" 0 "''Caucasian''"] h
  have a: "interpret_pft 100 100 1 40 ''Male'' 0 ''Caucasian'' None None None None None
       = [''Normal PFT values.'',
        ''Next steps: No action needed. Encourage routine follow-up if indicated.'']"
    by blast
  from normal_values_iff [of 30 "''Female''" 170 "''Asian''"] k
  have "interpret_pft 100 100 1 30 ''Female'' 170 ''Asian'' None None None None None
       = [''Obstructive pattern detected (LLN-adjusted cutoff: ''
            @ format_2f (calculate_lln 1 30 ''Female'' 170 ''Asian'') @ '').'',
          ''Severity: Mild obstruction.'',
          ''Next steps: Consider a short-acting beta-agonist (e.g., albuterol). Reassess if symptoms persist.'']"
    by blast
  then have b: "interpret_pft 100 100 1 30 ''Female'' 170 ''Asian'' None None None None None
       = [''Obstructive pattern detected (LLN-adjusted cutoff: 8.37).'',
          ''Severity: Mild obstruction.'',
          ''Next steps: Consider a short-acting beta-agonist (e.g., albuterol). Reassess if symptoms persist.'']"
    by (simp only: f append_Cons append_Nil)
  from h a k b show ?thesis by (intro conjI)
qed

text \<open>
  C2, as stated: when the obstructive check fires, one severity band is appended for every
  non-negative \<open>fev1\<close> and none for a negative \<open>fev1\<close>. The second half fails: the last
  branch tests only \<open>fev1 < 50\<close>, so \<open>fev1 = -1\<close> is graded severe.
\<close>

theorem severity_negative_counterexample:
  "(-1 :: real) < 0
   \<and> 0.5 < calculate_lln 1 30 ''Male'' 170 ''Caucasian''
   \<and> severity_bands
        (interpret_pft (-1) 100 0.5 30 ''Male'' 170 ''Caucasian'' None None None None None)
      = [''Severity: Severe obstruction.'']"
  by (simp add: interpret_eval severity_bands_def severity_lines_def)

text \<open>
  C2, amended: when the obstructive check fires (the ratio is below the computed cutoff),
  the output holds exactly one severity line for every \<open>fev1\<close>: Mild for \<open>fev1 \<ge> 70\<close>,
  Moderate for \<open>50 \<le> fev1 < 70\<close> and Severe for \<open>fev1 < 50\<close>, negative values included.
\<close>

theorem severity_band_exactly_one:
  assumes "fev1_fvc < calculate_lln 1 age gender height ethnicity"
  shows "(fev1 \<ge> 70 \<longrightarrow>
            severity_bands (interpret_pft fev1 fvc fev1_fvc age gender height ethnicity
              dlco_sb dl_va va_sb ivc_sb bht) = [''Severity: Mild obstruction.''])
       \<and> (50 \<le> fev1 \<and> fev1 < 70 \<longrightarrow>
            severity_bands (interpret_pft fev1 fvc fev1_fvc age gender height ethnicity
              dlco_sb dl_va va_sb ivc_sb bht) = [''Severity: Moderate obstruction.''])
       \<and> (fev1 < 50 \<longrightarrow>
            severity_bands (interpret_pft fev1 fvc fev1_fvc age gender height ethnicity
              dlco_sb dl_va va_sb ivc_sb bht) = [''Severity: Severe obstruction.''])"
proof -
  let ?lln = "calculate_lln 1 age gender height ethnicity"
  let ?out = "interpret_pft fev1 fvc fev1_fvc age gender height ethnicity
                dlco_sb dl_va va_sb ivc_sb bht"
  have "?out = obstructive_pattern fev1 fev1_fvc ?lln []
          @ restrictive_pattern fvc fev1_fvc ?lln []
          @ mixed_pattern fvc fev1_fvc ?lln []
          @ optional_notes dlco_sb dl_va va_sb ivc_sb bht"
    using obstructive_pattern_nonempty [OF assms, of fev1]
    by (simp add: interpret_pft_append normal_fallback_def)
  then have "severity_bands ?out = severity_bands (obstructive_pattern fev1 fev1_fvc ?lln [])"
    by (simp add: severity_bands_append severity_bands_restrictive severity_bands_mixed
        severity_bands_optional_notes)
  then show ?thesis
    by (simp add: severity_bands_obstructive [OF assms])
qed

theorem severity_band_exactly_one_witness:
  "0.5 < calculate_lln 1 30 ''Male'' 170 ''Caucasian''
   \<and> (50 :: real) \<le> 60 \<and> (60 :: real) < 70
   \<and> severity_bands
        (interpret_pft 60 100 0.5 30 ''Male'' 170 ''Caucasian'' (Some 90) None None None None)
      = [''Severity: Moderate obstruction.'']"
proof -
  have h: "0.5 < calculate_lln 1 30 ''Male'' 170 ''Caucasian''"
    by (simp add: lln_eval)
  from severity_band_exactly_one [OF h, of 60 100 "Some 90" None None None None] h
  show ?thesis by simp
qed

text \<open>
  C3. No output contains both the restrictive line and the mixed line: the first needs
  the ratio at or above the cutoff, the second needs it below.
\<close>

theorem restrictive_mixed_exclusive:
  "\<not> (''Restrictive pattern detected.''
          \<in> set (interpret_pft fev1 fvc fev1_fvc age gender height ethnicity
                  dlco_sb dl_va va_sb ivc_sb bht)
        \<and> ''Mixed obstructive and restrictive pattern detected.''
          \<in> set (interpret_pft fev1 fvc fev1_fvc age gender height ethnicity
                  dlco_sb dl_va va_sb ivc_sb bht))"
  by (simp add: restrictive_line_iff mixed_line_iff)

text \<open>
  C8. \<open>interpret_pft\<close> is deterministic. A call reads nothing but its twelve arguments:
  started in any two states of the module, two calls with the same demographics, the same
  spirometry values and the same optional measurements (present with the same value, or
  absent in both) return the same list, line for line and in the same order. A call also
  leaves the module state as it found it, so this holds of two calls in a row, and the
  list is the one the function \<open>interpret_pft\<close> of the arguments gives.
\<close>

theorem interpret_pft_deterministic:
  "fst (interpret_pft_call m fev1 fvc fev1_fvc age gender height ethnicity dlco_sb dl_va va_sb ivc_sb bht)
     = fst (interpret_pft_call m' fev1 fvc fev1_fvc age gender height ethnicity dlco_sb dl_va va_sb ivc_sb bht)
   \<and> snd (interpret_pft_call m fev1 fvc fev1_fvc age gender height ethnicity dlco_sb dl_va va_sb ivc_sb bht) = m
   \<and> fst (interpret_pft_call m fev1 fvc fev1_fvc age gender height ethnicity dlco_sb dl_va va_sb ivc_sb bht)
     = interpret_pft fev1 fvc fev1_fvc age gender height ethnicity dlco_sb dl_va va_sb ivc_sb bht"
  by (simp add: interpret_pft_call_eq)

text \<open>
  C9. When the ratio is at most 1 and the adjusted expression
  \<open>adjustment_factor * (1.0 - age * 0.02 + height * 0.05)\<close> is greater than 1, the first
  line of the output is the obstructive line, with the cutoff printed to two decimals, and
  the line \<open>Normal PFT values.\<close> does not occur, whatever \<open>fev1\<close> and \<open>fvc\<close> are. A
  Caucasian patient with \<open>height > 0.4 * age\<close> is such a case.
\<close>

theorem obstructive_above_one:
  "(ethnicity = ''Caucasian'' \<and> height > 0.4 * age \<longrightarrow>
      1 < adjustment_factor ethnicity * (1.0 - (age * 0.02) + (height * 0.05)))
   \<and> (fev1_fvc \<le> 1 \<and> 1 < adjustment_factor ethnicity * (1.0 - (age * 0.02) + (height * 0.05)) \<longrightarrow>
        take 1 (interpret_pft fev1 fvc fev1_fvc age gender height ethnicity
                  dlco_sb dl_va va_sb ivc_sb bht)
          = [''Obstructive pattern detected (LLN-adjusted cutoff: ''
          @ format_2f (calculate_lln 1 age gender height ethnicity) @ '').'']
        \<and> ''Normal PFT values.''
            \<notin> set (interpret_pft fev1 fvc fev1_fvc age gender height ethnicity
                     dlco_sb dl_va va_sb ivc_sb bht))"
proof (intro conjI impI)
  assume "ethnicity = ''Caucasian'' \<and> height > 0.4 * age"
  then show "1 < adjustment_factor ethnicity * (1.0 - (age * 0.02) + (height * 0.05))"
    by (simp add: adjustment_factor_def)
next
  assume a: "fev1_fvc \<le> 1 \<and> 1 < adjustment_factor ethnicity * (1.0 - (age * 0.02) + (height * 0.05))"
  then have lt: "fev1_fvc < calculate_lln 1 age gender height ethnicity"
    by (simp add: calculate_lln_def py_max_def)
  from obstructive_first [OF lt, of fev1 fvc dlco_sb dl_va va_sb ivc_sb bht]
  obtain rest where out: "interpret_pft fev1 fvc fev1_fvc age gender height ethnicity
      dlco_sb dl_va va_sb ivc_sb bht = (''Obstructive pattern detected (LLN-adjusted cutoff: ''
          @ format_2f (calculate_lln 1 age gender height ethnicity) @ '').'') # rest"
    by blast
  show "take 1 (interpret_pft fev1 fvc fev1_fvc age gender height ethnicity
                  dlco_sb dl_va va_sb ivc_sb bht) = [''Obstructive pattern detected (LLN-adjusted cutoff: ''
          @ format_2f (calculate_lln 1 age gender height ethnicity) @ '').'']"
    by (simp add: out)
  show "''Normal PFT values.''
      \<notin> set (interpret_pft fev1 fvc fev1_fvc age gender height ethnicity
               dlco_sb dl_va va_sb ivc_sb bht)"
  proof
    assume "''Normal PFT values.''
      \<in> set (interpret_pft fev1 fvc fev1_fvc age gender height ethnicity
               dlco_sb dl_va va_sb ivc_sb bht)"
    then have "interpret_pft fev1 fvc fev1_fvc age gender height ethnicity
        dlco_sb dl_va va_sb ivc_sb bht
      = [''Normal PFT values.'',
         ''Next steps: No action needed. Encourage routine follow-up if indicated.'']"
      by (simp only: normal_line_iff)
    with out show False by simp
  qed
qed

theorem obstructive_above_one_witness:
  "(170 :: real) > 0.4 * 30 \<and> (0.9 :: real) \<le> 1
   \<and> take 1 (interpret_pft 100 100 0.9 30 ''Female'' 170 ''Caucasian'' None None None None None)
       = [''Obstructive pattern detected (LLN-adjusted cutoff: 8.90).'']
   \<and> ''Normal PFT values.''
       \<notin> set (interpret_pft 100 100 0.9 30 ''Female'' 170 ''Caucasian'' None None None None None)"
proof -
  have h1: "''Caucasian'' = ''Caucasian'' \<and> (170 :: real) > 0.4 * 30"
    and h2: "(0.9 :: real) \<le> 1"
    by simp_all
  have f: "format_2f (calculate_lln 1 30 ''Female'' 170 ''Caucasian'') = ''8.90''"
    by (simp add: lln_eval format_eval)
  from obstructive_above_one [of "''Caucasian''" 30 170 "0.9" 100 100 "''Female''"
      None None None None None] h1 h2 f
  show ?thesis by simp
qed

text \<open>
  C10. An output that contains the mixed line also contains the obstructive line: the
  mixed check needs the ratio below the cutoff, which is the condition of the obstructive
  check.
\<close>

theorem mixed_implies_obstructive:
  assumes "''Mixed obstructive and restrictive pattern detected.''
      \<in> set (interpret_pft fev1 fvc fev1_fvc age gender height ethnicity
              dlco_sb dl_va va_sb ivc_sb bht)"
  shows "''Obstructive pattern detected (LLN-adjusted cutoff: ''
          @ format_2f (calculate_lln 1 age gender height ethnicity) @ '').''
      \<in> set (interpret_pft fev1 fvc fev1_fvc age gender height ethnicity
              dlco_sb dl_va va_sb ivc_sb bht)"
proof -
  from assms have "fev1_fvc < calculate_lln 1 age gender height ethnicity"
    by (simp add: mixed_line_iff)
  from obstructive_first [OF this, of fev1 fvc dlco_sb dl_va va_sb ivc_sb bht]
  show ?thesis by auto
qed

theorem mixed_implies_obstructive_witness:
  "''Mixed obstructive and restrictive pattern detected.''
     \<in> set (interpret_pft 40 70 0.5 30 ''Male'' 170 ''Caucasian'' None None None None None)
   \<and> ''Obstructive pattern detected (LLN-adjusted cutoff: 8.90).''
     \<in> set (interpret_pft 40 70 0.5 30 ''Male'' 170 ''Caucasian'' None None None None None)"
proof -
  have h: "''Mixed obstructive and restrictive pattern detected.''
     \<in> set (interpret_pft 40 70 0.5 30 ''Male'' 170 ''Caucasian'' None None None None None)"
    by (simp add: mixed_line_iff lln_eval)
  have f: "format_2f (calculate_lln 1 30 ''Male'' 170 ''Caucasian'') = ''8.90''"
    by (simp add: lln_eval format_eval)
  from mixed_implies_obstructive [OF h] h f show ?thesis by simp
qed

end
